theory Spec2Isabelle
  imports Complex_Main "HOL-Library.Word" "HOL-Library.Monad_Syntax"
begin

section \<open>Machine types\<close>

text \<open>
  The C++ \<^verbatim>\<open>int\<close> values the heuristic computes with (cell distances, the cost per cell,
  the returned costs) are 32-bit words; \<open>sint\<close> reads one as a signed number and \<open>*\<close> is
  the two's-complement product the hardware delivers. Grid coordinates and state
  identifiers are only compared, never computed with, so they are kept as \<open>int\<close>.
\<close>

type_synonym int32 = "32 word"

definition INT_MAX :: int32 where
  "INT_MAX = 0x7FFFFFFF"

text \<open>
  A product of two ints fits when it is representable in 32 bits. Signed overflow is
  undefined in C++; where a product does not fit, the model has the wrapped value.
\<close>

definition fits_int32 :: "int \<Rightarrow> bool" where
  "fits_int32 k = (- (2 ^ 31) \<le> k \<and> k < 2 ^ 31)"

text \<open>
  A \<^verbatim>\<open>double\<close>: not-a-number, the two infinities, or a finite value. The comparison
  operators are IEEE's: every comparison with NaN is false.
\<close>

datatype double = NaN | NegInf | Fin real | PosInf

fun double_le :: "double \<Rightarrow> double \<Rightarrow> bool" where
  "double_le NaN b = False"
| "double_le a NaN = False"
| "double_le NegInf b = True"
| "double_le a PosInf = True"
| "double_le (Fin a) (Fin b) = (a \<le> b)"
| "double_le (Fin a) NegInf = False"
| "double_le PosInf b = False"

fun double_less :: "double \<Rightarrow> double \<Rightarrow> bool" where
  "double_less NaN b = False"
| "double_less a NaN = False"
| "double_less PosInf b = False"
| "double_less a NegInf = False"
| "double_less NegInf b = True"
| "double_less a PosInf = True"
| "double_less (Fin a) (Fin b) = (a < b)"

text \<open>The cast \<^verbatim>\<open>(double)i\<close> of a 32-bit int is exact.\<close>

definition int_to_double :: "int32 \<Rightarrow> double" where
  "int_to_double i = Fin (real_of_int (sint i))"

text \<open>
  IEEE multiplication of doubles. A NaN operand gives NaN, an infinity times zero gives
  NaN, an infinity times anything else an infinity of the product's sign. The product of
  two finite values is rounded, and becomes an infinity when it is beyond the range of a
  double; how is the parameter \<open>rnd\<close>. Signed zeros are not told apart.
\<close>

definition inf_of_sign :: "real \<Rightarrow> double" where
  "inf_of_sign s = (if s = 0 then NaN else if 0 < s then PosInf else NegInf)"

fun double_mul :: "(real \<Rightarrow> double) \<Rightarrow> double \<Rightarrow> double \<Rightarrow> double" where
  "double_mul rnd NaN b = NaN"
| "double_mul rnd a NaN = NaN"
| "double_mul rnd (Fin a) (Fin b) = rnd (a * b)"
| "double_mul rnd (Fin a) PosInf = inf_of_sign a"
| "double_mul rnd (Fin a) NegInf = inf_of_sign (- a)"
| "double_mul rnd PosInf (Fin b) = inf_of_sign b"
| "double_mul rnd NegInf (Fin b) = inf_of_sign (- b)"
| "double_mul rnd PosInf PosInf = PosInf"
| "double_mul rnd PosInf NegInf = NegInf"
| "double_mul rnd NegInf PosInf = NegInf"
| "double_mul rnd NegInf NegInf = PosInf"

text \<open>The largest finite double, and the test for a finite double.\<close>

definition DBL_MAX :: real where
  "DBL_MAX = (2 - 1 / 2 ^ 52) * 2 ^ 1023"

fun is_finite :: "double \<Rightarrow> bool" where
  "is_finite (Fin r) = True"
| "is_finite d = False"

section \<open>Collaborators\<close>

type_synonym cell = "int \<times> int \<times> int"

text \<open>
  The clearance grid (\<^verbatim>\<open>OccupancyGrid\<close>), the planning parameters and the planning
  environment are declared outside the heuristic's file; the heuristic uses them only
  through the members below, which are therefore the fields of their records.
\<close>

record OccupancyGrid =
  getGridSize :: cell
  grid_getDistance :: "int \<Rightarrow> int \<Rightarrow> int \<Rightarrow> double"
  worldToGrid :: "double \<Rightarrow> double \<Rightarrow> double \<Rightarrow> cell"
  getResolution :: double

record PlanningParams =
  planning_link_sphere_radius :: double
  cost_per_cell :: int32

record EnvROBARM3DHashEntry_t =
  xyz :: cell

record EnvironmentROBARM3D =
  getHashEntry :: "int \<Rightarrow> EnvROBARM3DHashEntry_t option"
  isGoal :: "int \<Rightarrow> bool"

section \<open>The wavefront engine \<^verbatim>\<open>BFS_3D\<close>\<close>

text \<open>
  Modelled from the spec: the class \<^verbatim>\<open>BFS_3D\<close> of \<^verbatim>\<open>bfs3d/BFS_3D.h\<close>, which the
  heuristic includes and whose source is not part of the files at hand. The spec gives
  it dimensions and a dense integer-per-cell distance array whose cells hold \<open>WALL\<close>,
  \<open>UNDISCOVERED\<close> or a step count. The values of the two sentinels are not given, so
  they are parameters, collected in a record that every operation using them receives.
\<close>

record BFS_3D_consts =
  WALL :: int32
  UNDISCOVERED :: int32

text \<open>
  Modelled from the spec: the engine's state, its three dimensions and the distance of
  every cell.
\<close>

record BFS_3D =
  dim_x :: int
  dim_y :: int
  dim_z :: int
  distance_grid :: "cell \<Rightarrow> int32"

text \<open>
  Modelled from the spec: a freshly constructed engine of the given size has no walls
  and no distances, every cell is \<open>UNDISCOVERED\<close>.
\<close>

definition BFS_3D_new :: "BFS_3D_consts \<Rightarrow> int \<Rightarrow> int \<Rightarrow> int \<Rightarrow> BFS_3D" where
  "BFS_3D_new K xc yc zc =
     \<lparr>dim_x = xc, dim_y = yc, dim_z = zc, distance_grid = (\<lambda>c. UNDISCOVERED K)\<rparr>"

text \<open>Modelled from the spec: \<^verbatim>\<open>inBounds\<close>, a pure predicate on the grid's bounds.\<close>

definition inBounds :: "BFS_3D \<Rightarrow> int \<Rightarrow> int \<Rightarrow> int \<Rightarrow> bool" where
  "inBounds b x y z =
     (0 \<le> x \<and> x < dim_x b \<and> 0 \<le> y \<and> y < dim_y b \<and> 0 \<le> z \<and> z < dim_z b)"

text \<open>
  Modelled from the spec: \<^verbatim>\<open>getDistance\<close> is a lookup, and is undefined for
  out-of-bounds coordinates (callers must check \<^verbatim>\<open>inBounds\<close> first). The undefined
  read is the value \<open>None\<close>, so that a caller that reads out of bounds is visible.
\<close>

definition getDistance :: "BFS_3D \<Rightarrow> int \<Rightarrow> int \<Rightarrow> int \<Rightarrow> int32 option" where
  "getDistance b x y z =
     (if inBounds b x y z then Some (distance_grid b (x, y, z)) else None)"

text \<open>Modelled from the spec: \<^verbatim>\<open>setWall\<close>; a wall cell carries \<open>WALL\<close>.\<close>

definition setWall :: "BFS_3D_consts \<Rightarrow> BFS_3D \<Rightarrow> int \<Rightarrow> int \<Rightarrow> int \<Rightarrow> BFS_3D" where
  "setWall K b x y z = b\<lparr>distance_grid := (distance_grid b)((x, y, z) := WALL K)\<rparr>"

text \<open>Modelled from the spec: \<^verbatim>\<open>isWall\<close>, true of the cells that carry \<open>WALL\<close>.\<close>

definition isWall :: "BFS_3D_consts \<Rightarrow> BFS_3D \<Rightarrow> int \<Rightarrow> int \<Rightarrow> int \<Rightarrow> bool" where
  "isWall K b x y z = (getDistance b x y z = Some (WALL K))"

text \<open>
  Modelled from the spec: \<^verbatim>\<open>isUndiscovered\<close>, true of the cells that carry
  \<open>UNDISCOVERED\<close>.
\<close>

definition isUndiscovered :: "BFS_3D_consts \<Rightarrow> BFS_3D \<Rightarrow> int \<Rightarrow> int \<Rightarrow> int \<Rightarrow> bool" where
  "isUndiscovered K b x y z = (getDistance b x y z = Some (UNDISCOVERED K))"

text \<open>
  Modelled from the spec: \<^verbatim>\<open>run\<close>. Every cell that is not a wall is reset to
  \<open>UNDISCOVERED\<close>, the source cell gets distance 0 and seeds a FIFO frontier; each pop
  gives the in-bounds, non-wall, still undiscovered neighbours the popped cell's distance
  plus one and appends them to the frontier, until the frontier is empty. The spec
  leaves the connectivity open, so the neighbour offsets \<open>nbrs\<close> are a parameter. The
  spec bounds the sweep by the grid volume, a cell entering the frontier at most once;
  the number of cells is the fuel of the loop.
\<close>

definition reset_distances :: "BFS_3D_consts \<Rightarrow> BFS_3D \<Rightarrow> BFS_3D" where
  "reset_distances K b =
     b\<lparr>distance_grid :=
         (\<lambda>c. if distance_grid b c = WALL K then WALL K else UNDISCOVERED K)\<rparr>"

text \<open>
  Modelled from the spec: what a pop does to one neighbour \<open>c\<close> of a cell at distance
  \<open>d\<close>. The state is the engine and the frontier.
\<close>

definition discover :: "BFS_3D_consts \<Rightarrow> int32 \<Rightarrow> cell \<Rightarrow> BFS_3D \<times> cell list \<Rightarrow> BFS_3D \<times> cell list" where
  "discover K d c s =
     (case c of (x, y, z) \<Rightarrow>
        if inBounds (fst s) x y z \<and> distance_grid (fst s) c \<noteq> WALL K
           \<and> distance_grid (fst s) c = UNDISCOVERED K
        then ((fst s)\<lparr>distance_grid := (distance_grid (fst s))(c := d + 1)\<rparr>, snd s @ [c])
        else s)"

text \<open>Modelled from the spec: the neighbours of a cell under the offsets \<open>nbrs\<close>.\<close>

definition neighbours :: "cell list \<Rightarrow> cell \<Rightarrow> cell list" where
  "neighbours nbrs c =
     (case c of (x, y, z) \<Rightarrow> map (\<lambda>(dx, dy, dz). (x + dx, y + dy, z + dz)) nbrs)"

text \<open>Modelled from the spec: the loop that pops the frontier until it is empty.\<close>

fun sweep :: "nat \<Rightarrow> BFS_3D_consts \<Rightarrow> cell list \<Rightarrow> BFS_3D \<Rightarrow> cell list \<Rightarrow> BFS_3D" where
  "sweep 0 K nbrs b frontier = b"
| "sweep (Suc n) K nbrs b [] = b"
| "sweep (Suc n) K nbrs b (c # frontier) =
     (case fold (discover K (distance_grid b c)) (neighbours nbrs c) (b, frontier) of
        (b', frontier') \<Rightarrow> sweep n K nbrs b' frontier')"

text \<open>Modelled from the spec: \<^verbatim>\<open>run\<close> itself, reset, seed and sweep.\<close>

definition run :: "BFS_3D_consts \<Rightarrow> cell list \<Rightarrow> BFS_3D \<Rightarrow> int \<Rightarrow> int \<Rightarrow> int \<Rightarrow> BFS_3D" where
  "run K nbrs b x y z =
     (let b0 = reset_distances K b;
          b1 = b0\<lparr>distance_grid := (distance_grid b0)((x, y, z) := 0)\<rparr>
      in sweep (nat (dim_x b * dim_y b * dim_z b)) K nbrs b1 [(x, y, z)])"

text \<open>
  Modelled from the spec: the six face neighbours, one of the connectivities the spec
  allows.
\<close>

definition six_connected :: "cell list" where
  "six_connected = [(1, 0, 0), (-1, 0, 0), (0, 1, 0), (0, -1, 0), (0, 0, 1), (0, 0, -1)]"

section \<open>The heuristic \<^verbatim>\<open>BfsHeuristic\<close>\<close>

record BfsHeuristic =
  m_manip_env :: EnvironmentROBARM3D
  m_grid :: OccupancyGrid
  m_params :: PlanningParams
  m_bfs :: BFS_3D

subsection \<open>\<^verbatim>\<open>syncGridAndBfs\<close>\<close>

text \<open>
  The body of the innermost loop: a cell whose clearance is at most the sphere radius is
  set to a wall and counted. The state of the loops is the engine and \<^verbatim>\<open>wall_count\<close>.
  The cell count and the percentage are only logged and are left out.
\<close>

definition sync_cell ::
  "BFS_3D_consts \<Rightarrow> OccupancyGrid \<Rightarrow> PlanningParams \<Rightarrow> int \<Rightarrow> int \<Rightarrow> int \<Rightarrow> BFS_3D \<times> int \<Rightarrow> BFS_3D \<times> int" where
  "sync_cell K g p z y x s =
     (if double_le (grid_getDistance g x y z) (planning_link_sphere_radius p)
      then (setWall K (fst s) x y z, snd s + 1)
      else s)"

text \<open>The three nested loops, \<^verbatim>\<open>x\<close> innermost, each from 0 up to its count.\<close>

definition sync_x ::
  "BFS_3D_consts \<Rightarrow> OccupancyGrid \<Rightarrow> PlanningParams \<Rightarrow> int \<Rightarrow> int \<Rightarrow> int \<Rightarrow> BFS_3D \<times> int \<Rightarrow> BFS_3D \<times> int" where
  "sync_x K g p xc z y s = fold (sync_cell K g p z y) [0..xc - 1] s"

definition sync_y ::
  "BFS_3D_consts \<Rightarrow> OccupancyGrid \<Rightarrow> PlanningParams \<Rightarrow> int \<Rightarrow> int \<Rightarrow> int \<Rightarrow> BFS_3D \<times> int \<Rightarrow> BFS_3D \<times> int" where
  "sync_y K g p xc yc z s = fold (sync_x K g p xc z) [0..yc - 1] s"

definition sync_z ::
  "BFS_3D_consts \<Rightarrow> OccupancyGrid \<Rightarrow> PlanningParams \<Rightarrow> int \<Rightarrow> int \<Rightarrow> int \<Rightarrow> BFS_3D \<times> int \<Rightarrow> BFS_3D \<times> int" where
  "sync_z K g p xc yc zc s = fold (sync_y K g p xc yc) [0..zc - 1] s"

text \<open>
  \<^verbatim>\<open>syncGridAndBfs\<close> reads \<^verbatim>\<open>m_grid\<close> and \<^verbatim>\<open>m_params\<close> and replaces \<^verbatim>\<open>m_bfs\<close> by a new
  engine; the model takes the two it reads and returns the new engine together with the
  wall count it logs.
\<close>

definition sync_walls :: "BFS_3D_consts \<Rightarrow> OccupancyGrid \<Rightarrow> PlanningParams \<Rightarrow> BFS_3D \<times> int" where
  "sync_walls K g p =
     (case getGridSize g of (xc, yc, zc) \<Rightarrow>
        sync_z K g p xc yc zc (BFS_3D_new K xc yc zc, 0))"

definition syncGridAndBfs :: "BFS_3D_consts \<Rightarrow> OccupancyGrid \<Rightarrow> PlanningParams \<Rightarrow> BFS_3D" where
  "syncGridAndBfs K g p = fst (sync_walls K g p)"

text \<open>The constructor stores its arguments and calls \<^verbatim>\<open>syncGridAndBfs\<close>.\<close>

definition BfsHeuristic_new ::
  "BFS_3D_consts \<Rightarrow> EnvironmentROBARM3D \<Rightarrow> OccupancyGrid \<Rightarrow> PlanningParams \<Rightarrow> BfsHeuristic" where
  "BfsHeuristic_new K env g p =
     \<lparr>m_manip_env = env, m_grid = g, m_params = p, m_bfs = syncGridAndBfs K g p\<rparr>"

subsection \<open>Goal and queries\<close>

text \<open>
  \<^verbatim>\<open>setGoal\<close> returns its flag and the heuristic it leaves behind. The wavefront it
  starts is the engine's \<^verbatim>\<open>run\<close>, taken as the parameter \<open>runf\<close>.
\<close>

definition setGoal ::
  "(BFS_3D \<Rightarrow> int \<Rightarrow> int \<Rightarrow> int \<Rightarrow> BFS_3D) \<Rightarrow> BfsHeuristic \<Rightarrow> int \<Rightarrow> int \<Rightarrow> int \<Rightarrow> bool \<times> BfsHeuristic" where
  "setGoal runf h x y z =
     (if \<not> inBounds (m_bfs h) x y z then (False, h)
      else (True, h\<lparr>m_bfs := runf (m_bfs h) x y z\<rparr>))"

text \<open>
  \<^verbatim>\<open>getMetricGoalDistance\<close>. The product of two doubles is rounded; the model takes the
  multiplication as the parameter \<open>mul\<close> and so holds for any rounding.
\<close>

definition getMetricGoalDistance ::
  "BFS_3D_consts \<Rightarrow> (double \<Rightarrow> double \<Rightarrow> double) \<Rightarrow> BfsHeuristic \<Rightarrow> double \<Rightarrow> double \<Rightarrow> double \<Rightarrow> double option" where
  "getMetricGoalDistance K mul h x y z =
     (case worldToGrid (m_grid h) x y z of (gx, gy, gz) \<Rightarrow>
        if \<not> inBounds (m_bfs h) gx gy gz
        then Some (mul (int_to_double (WALL K)) (getResolution (m_grid h)))
        else do {
          d \<leftarrow> getDistance (m_bfs h) gx gy gz;
          Some (mul (int_to_double d) (getResolution (m_grid h)))
        })"

text \<open>\<^verbatim>\<open>getBfsCostToGoal\<close>, which reads the distance twice.\<close>

definition getBfsCostToGoal ::
  "BFS_3D_consts \<Rightarrow> BfsHeuristic \<Rightarrow> BFS_3D \<Rightarrow> int \<Rightarrow> int \<Rightarrow> int \<Rightarrow> int32 option" where
  "getBfsCostToGoal K h bfs x y z =
     (if \<not> inBounds bfs x y z then Some INT_MAX
      else do {
        d \<leftarrow> getDistance bfs x y z;
        if d = WALL K then Some INT_MAX
        else do {
          d' \<leftarrow> getDistance bfs x y z;
          Some (cost_per_cell (m_params h) * d')
        }
      })"

text \<open>
  \<^verbatim>\<open>GetGoalHeuristic\<close>. The environment's \<^verbatim>\<open>getHashEntry\<close> returns a pointer to the state
  or null, here an option.
\<close>

definition GetGoalHeuristic :: "BFS_3D_consts \<Rightarrow> BfsHeuristic \<Rightarrow> int \<Rightarrow> int32 option" where
  "GetGoalHeuristic K h state_id =
     (case getHashEntry (m_manip_env h) state_id of
        Some state \<Rightarrow>
          getBfsCostToGoal K h (m_bfs h) (fst (xyz state)) (fst (snd (xyz state)))
            (snd (snd (xyz state)))
      | None \<Rightarrow> Some 0)"

text \<open>\<^verbatim>\<open>GetStartHeuristic\<close> only logs a warning; it returns 0 and the heuristic as it was.\<close>

definition GetStartHeuristic :: "BfsHeuristic \<Rightarrow> int \<Rightarrow> int32 \<times> BfsHeuristic" where
  "GetStartHeuristic h state_id = (0, h)"

text \<open>\<^verbatim>\<open>GetFromToHeuristic\<close>, which answers for the goal as target only.\<close>

definition GetFromToHeuristic :: "BFS_3D_consts \<Rightarrow> BfsHeuristic \<Rightarrow> int \<Rightarrow> int \<Rightarrow> int32 option" where
  "GetFromToHeuristic K h from_id to_id =
     (if isGoal (m_manip_env h) to_id then GetGoalHeuristic K h from_id
      else Some 0)"

section \<open>A small scene\<close>

text \<open>
  The concrete inputs the theorems below are instantiated at. The sentinels are the
  largest int for a wall and \<open>-1\<close> for an undiscovered cell. The clearance grid is a
  corridor of five cells along \<open>x\<close>, with resolution 1, in which cell \<open>w\<close> (if any) has
  clearance 0 and every other cell clearance 1; the sphere radius is one half. State \<open>i\<close>
  of the environment sits in cell \<open>(i, 0, 0)\<close> for \<open>0 \<le> i < 5\<close>, other identifiers are
  unknown, and state 0 is the goal.
\<close>

definition example_consts :: BFS_3D_consts where
  "example_consts = \<lparr>WALL = 0x7FFFFFFF, UNDISCOVERED = 0xFFFFFFFF\<rparr>"

fun example_index :: "double \<Rightarrow> int" where
  "example_index (Fin a) = \<lfloor>a\<rfloor>"
| "example_index d = 0"

definition example_grid :: "int \<Rightarrow> OccupancyGrid" where
  "example_grid w =
     \<lparr>getGridSize = (5, 1, 1),
      grid_getDistance = (\<lambda>x y z. if x = w then Fin 0 else Fin 1),
      worldToGrid = (\<lambda>x y z. (example_index x, example_index y, example_index z)),
      getResolution = Fin 1\<rparr>"

definition example_params :: "int32 \<Rightarrow> PlanningParams" where
  "example_params c = \<lparr>planning_link_sphere_radius = Fin (1 / 2), cost_per_cell = c\<rparr>"

definition example_env :: EnvironmentROBARM3D where
  "example_env =
     \<lparr>getHashEntry = (\<lambda>i. if 0 \<le> i \<and> i < 5 then Some \<lparr>xyz = (i, 0, 0)\<rparr> else None),
      isGoal = (\<lambda>i. i = 0)\<rparr>"

text \<open>The heuristic as constructed, and after \<^verbatim>\<open>setGoal(0, 0, 0)\<close>.\<close>

definition example_heuristic :: "int \<Rightarrow> int32 \<Rightarrow> BfsHeuristic" where
  "example_heuristic w c =
     BfsHeuristic_new example_consts example_env (example_grid w) (example_params c)"

definition example_run :: "BFS_3D \<Rightarrow> int \<Rightarrow> int \<Rightarrow> int \<Rightarrow> BFS_3D" where
  "example_run = run example_consts six_connected"

definition example_with_goal :: "int \<Rightarrow> int32 \<Rightarrow> BfsHeuristic" where
  "example_with_goal w c = snd (setGoal example_run (example_heuristic w c) 0 0 0)"

text \<open>
  A rounding for the scene: exact within the range of a double, an infinity beyond it.
\<close>

definition example_round :: "real \<Rightarrow> double" where
  "example_round v =
     (if \<bar>v\<bar> \<le> DBL_MAX then Fin v else if 0 < v then PosInf else NegInf)"

text \<open>The scene after \<^verbatim>\<open>setGoal(0, 0, 0)\<close>, with another grid resolution.\<close>

definition example_with_resolution :: "double \<Rightarrow> BfsHeuristic" where
  "example_with_resolution r =
     snd (setGoal example_run
       (BfsHeuristic_new example_consts example_env
          ((example_grid 3)\<lparr>getResolution := r\<rparr>) (example_params 100)) 0 0 0)"

text \<open>A multiplication of doubles for the scene: exact on finite values.\<close>

fun example_mul :: "double \<Rightarrow> double \<Rightarrow> double" where
  "example_mul (Fin a) (Fin b) = Fin (a * b)"
| "example_mul a b = NaN"

section \<open>Facts about the engine and the arithmetic\<close>

lemma getDistance_Some:
  "inBounds b x y z \<Longrightarrow> getDistance b x y z = Some (distance_grid b (x, y, z))"
  by (simp add: getDistance_def)

lemma getDistance_None: "\<not> inBounds b x y z \<Longrightarrow> getDistance b x y z = None"
  by (simp add: getDistance_def)

lemma getDistance_inBounds: "getDistance b x y z = Some d \<Longrightarrow> inBounds b x y z"
  by (simp add: getDistance_def split: if_splits)

lemma isWall_iff: "isWall K b x y z = (inBounds b x y z \<and> distance_grid b (x, y, z) = WALL K)"
  by (auto simp: isWall_def getDistance_def)

lemma isUndiscovered_iff:
  "isUndiscovered K b x y z = (inBounds b x y z \<and> distance_grid b (x, y, z) = UNDISCOVERED K)"
  by (auto simp: isUndiscovered_def getDistance_def)

text \<open>IEEE's comparisons chain: \<open>a \<le> b\<close> and \<open>b < c\<close> give \<open>a \<le> c\<close>.\<close>

lemma double_le_less_trans: "double_le a b \<Longrightarrow> double_less b c \<Longrightarrow> double_le a c"
  by (cases a; cases b; cases c) auto

text \<open>A product that fits in 32 bits is the product of the signed values.\<close>

lemma sint_product:
  "fits_int32 (sint (c :: int32) * sint d) \<Longrightarrow> sint (c * d) = sint c * sint d"
  by (simp add: fits_int32_def sint_word_ariths signed_take_bit_int_eq_self)

lemma product_mono:
  "0 \<le> sint (c :: int32) \<Longrightarrow> fits_int32 (sint c * sint d1) \<Longrightarrow>
   fits_int32 (sint c * sint d2) \<Longrightarrow> sint d1 \<le> sint d2 \<Longrightarrow> sint (c * d1) \<le> sint (c * d2)"
  by (simp add: sint_product mult_left_mono)

text \<open>\<open>INT_MAX\<close> is odd, so no multiple of an even cost is \<open>INT_MAX\<close>, wrapped or not.\<close>

lemma even_product_not_INT_MAX: "even (c :: int32) \<Longrightarrow> c * d \<noteq> INT_MAX"
proof
  assume "even c" and "c * d = INT_MAX"
  then have "even INT_MAX" by (metis dvd_mult2)
  then show False by (simp add: INT_MAX_def)
qed

section \<open>The walls \<^verbatim>\<open>syncGridAndBfs\<close> sets\<close>

text \<open>
  One level of loop at a time: after the loop over a list of indices, a cell holds
  \<open>WALL\<close> if the loop visited it and its clearance is at most the radius, and what it
  held before otherwise.
\<close>

lemma sync_cell_grid:
  "distance_grid (fst (sync_cell K g p z y x s)) c =
     (if c = (x, y, z) \<and> double_le (grid_getDistance g x y z) (planning_link_sphere_radius p)
      then WALL K else distance_grid (fst s) c)"
  by (simp add: sync_cell_def setWall_def)

lemma sync_x_fold_grid:
  "distance_grid (fst (fold (sync_cell K g p z y) xs s)) (a, b, c) =
     (if b = y \<and> c = z \<and> a \<in> set xs
         \<and> double_le (grid_getDistance g a b c) (planning_link_sphere_radius p)
      then WALL K else distance_grid (fst s) (a, b, c))"
  by (induction xs arbitrary: s) (auto simp: sync_cell_grid)

lemma sync_x_grid:
  "distance_grid (fst (sync_x K g p xc z y s)) (a, b, c) =
     (if b = y \<and> c = z \<and> 0 \<le> a \<and> a < xc
         \<and> double_le (grid_getDistance g a b c) (planning_link_sphere_radius p)
      then WALL K else distance_grid (fst s) (a, b, c))"
  by (auto simp: sync_x_def sync_x_fold_grid)

lemma sync_y_fold_grid:
  "distance_grid (fst (fold (sync_x K g p xc z) ys s)) (a, b, c) =
     (if c = z \<and> b \<in> set ys \<and> 0 \<le> a \<and> a < xc
         \<and> double_le (grid_getDistance g a b c) (planning_link_sphere_radius p)
      then WALL K else distance_grid (fst s) (a, b, c))"
  by (induction ys arbitrary: s) (auto simp: sync_x_grid)

lemma sync_y_grid:
  "distance_grid (fst (sync_y K g p xc yc z s)) (a, b, c) =
     (if c = z \<and> 0 \<le> b \<and> b < yc \<and> 0 \<le> a \<and> a < xc
         \<and> double_le (grid_getDistance g a b c) (planning_link_sphere_radius p)
      then WALL K else distance_grid (fst s) (a, b, c))"
  by (auto simp: sync_y_def sync_y_fold_grid)

lemma sync_z_fold_grid:
  "distance_grid (fst (fold (sync_y K g p xc yc) zs s)) (a, b, c) =
     (if c \<in> set zs \<and> 0 \<le> b \<and> b < yc \<and> 0 \<le> a \<and> a < xc
         \<and> double_le (grid_getDistance g a b c) (planning_link_sphere_radius p)
      then WALL K else distance_grid (fst s) (a, b, c))"
  by (induction zs arbitrary: s) (auto simp: sync_y_grid)

lemma sync_z_grid:
  "distance_grid (fst (sync_z K g p xc yc zc s)) (a, b, c) =
     (if 0 \<le> c \<and> c < zc \<and> 0 \<le> b \<and> b < yc \<and> 0 \<le> a \<and> a < xc
         \<and> double_le (grid_getDistance g a b c) (planning_link_sphere_radius p)
      then WALL K else distance_grid (fst s) (a, b, c))"
  by (auto simp: sync_z_def sync_z_fold_grid)

text \<open>The loops never change the engine's dimensions.\<close>

lemma sync_cell_dims:
  "dim_x (fst (sync_cell K g p z y x s)) = dim_x (fst s) \<and>
   dim_y (fst (sync_cell K g p z y x s)) = dim_y (fst s) \<and>
   dim_z (fst (sync_cell K g p z y x s)) = dim_z (fst s)"
  by (simp add: sync_cell_def setWall_def)

lemma sync_x_fold_dims:
  "dim_x (fst (fold (sync_cell K g p z y) xs s)) = dim_x (fst s) \<and>
   dim_y (fst (fold (sync_cell K g p z y) xs s)) = dim_y (fst s) \<and>
   dim_z (fst (fold (sync_cell K g p z y) xs s)) = dim_z (fst s)"
  by (induction xs arbitrary: s) (simp_all add: sync_cell_dims)

lemma sync_y_fold_dims:
  "dim_x (fst (fold (sync_x K g p xc z) ys s)) = dim_x (fst s) \<and>
   dim_y (fst (fold (sync_x K g p xc z) ys s)) = dim_y (fst s) \<and>
   dim_z (fst (fold (sync_x K g p xc z) ys s)) = dim_z (fst s)"
  by (induction ys arbitrary: s) (simp_all add: sync_x_def sync_x_fold_dims)

lemma sync_z_fold_dims:
  "dim_x (fst (fold (sync_y K g p xc yc) zs s)) = dim_x (fst s) \<and>
   dim_y (fst (fold (sync_y K g p xc yc) zs s)) = dim_y (fst s) \<and>
   dim_z (fst (fold (sync_y K g p xc yc) zs s)) = dim_z (fst s)"
  by (induction zs arbitrary: s) (simp_all add: sync_y_def sync_y_fold_dims)

lemma syncGridAndBfs_dims:
  "getGridSize g = (xc, yc, zc) \<Longrightarrow>
   dim_x (syncGridAndBfs K g p) = xc \<and> dim_y (syncGridAndBfs K g p) = yc \<and>
   dim_z (syncGridAndBfs K g p) = zc"
  by (simp add: syncGridAndBfs_def sync_walls_def sync_z_def sync_z_fold_dims BFS_3D_new_def)

lemma syncGridAndBfs_inBounds:
  "getGridSize g = (xc, yc, zc) \<Longrightarrow>
   inBounds (syncGridAndBfs K g p) x y z =
     (0 \<le> x \<and> x < xc \<and> 0 \<le> y \<and> y < yc \<and> 0 \<le> z \<and> z < zc)"
  by (simp add: inBounds_def syncGridAndBfs_dims)

lemma syncGridAndBfs_grid:
  "getGridSize g = (xc, yc, zc) \<Longrightarrow>
   distance_grid (syncGridAndBfs K g p) (x, y, z) =
     (if 0 \<le> x \<and> x < xc \<and> 0 \<le> y \<and> y < yc \<and> 0 \<le> z \<and> z < zc
         \<and> double_le (grid_getDistance g x y z) (planning_link_sphere_radius p)
      then WALL K else UNDISCOVERED K)"
  by (auto simp: syncGridAndBfs_def sync_walls_def sync_z_grid BFS_3D_new_def)

text \<open>
  The count \<^verbatim>\<open>syncGridAndBfs\<close> logs is the number of cells of the grid whose clearance is
  at most the radius.
\<close>

lemma sync_x_fold_count:
  "snd (fold (sync_cell K g p z y) xs s) =
     snd s + int (length (filter
       (\<lambda>x. double_le (grid_getDistance g x y z) (planning_link_sphere_radius p)) xs))"
  by (induction xs arbitrary: s) (simp_all add: sync_cell_def)

lemma sync_y_fold_count:
  "snd (fold (sync_x K g p xc z) ys s) =
     snd s + (\<Sum>y\<leftarrow>ys. int (length (filter
       (\<lambda>x. double_le (grid_getDistance g x y z) (planning_link_sphere_radius p)) [0..xc - 1])))"
  by (induction ys arbitrary: s) (simp_all add: sync_x_def sync_x_fold_count)

lemma sync_z_fold_count:
  "snd (fold (sync_y K g p xc yc) zs s) =
     snd s + (\<Sum>z\<leftarrow>zs. \<Sum>y\<leftarrow>[0..yc - 1]. int (length (filter
       (\<lambda>x. double_le (grid_getDistance g x y z) (planning_link_sphere_radius p)) [0..xc - 1])))"
  by (induction zs arbitrary: s) (simp_all add: sync_y_def sync_y_fold_count)

lemma sync_walls_count:
  "getGridSize g = (xc, yc, zc) \<Longrightarrow>
   snd (sync_walls K g p) =
     (\<Sum>z\<leftarrow>[0..zc - 1]. \<Sum>y\<leftarrow>[0..yc - 1]. int (length (filter
       (\<lambda>x. double_le (grid_getDistance g x y z) (planning_link_sphere_radius p)) [0..xc - 1])))"
  by (simp add: sync_walls_def sync_z_def sync_z_fold_count)

section \<open>Facts about the queries\<close>

lemma getBfsCostToGoal_out:
  "\<not> inBounds bfs x y z \<Longrightarrow> getBfsCostToGoal K h bfs x y z = Some INT_MAX"
  by (simp add: getBfsCostToGoal_def)

lemma getBfsCostToGoal_wall:
  "getDistance bfs x y z = Some (WALL K) \<Longrightarrow> getBfsCostToGoal K h bfs x y z = Some INT_MAX"
  by (simp add: getBfsCostToGoal_def)

lemma getBfsCostToGoal_product:
  "getDistance bfs x y z = Some d \<Longrightarrow> d \<noteq> WALL K \<Longrightarrow>
   getBfsCostToGoal K h bfs x y z = Some (cost_per_cell (m_params h) * d)"
  by (auto simp: getBfsCostToGoal_def getDistance_def split: if_splits)

text \<open>The cost query checks the bounds before it reads, so it always has a value.\<close>

lemma getBfsCostToGoal_defined: "\<exists>v. getBfsCostToGoal K h bfs x y z = Some v"
  by (auto simp: getBfsCostToGoal_def getDistance_def)

lemma getMetricGoalDistance_out:
  "worldToGrid (m_grid h) x y z = (gx, gy, gz) \<Longrightarrow> \<not> inBounds (m_bfs h) gx gy gz \<Longrightarrow>
   getMetricGoalDistance K mul h x y z =
     Some (mul (int_to_double (WALL K)) (getResolution (m_grid h)))"
  by (simp add: getMetricGoalDistance_def)

lemma getMetricGoalDistance_in:
  "worldToGrid (m_grid h) x y z = (gx, gy, gz) \<Longrightarrow> inBounds (m_bfs h) gx gy gz \<Longrightarrow>
   getMetricGoalDistance K mul h x y z =
     Some (mul (int_to_double (distance_grid (m_bfs h) (gx, gy, gz))) (getResolution (m_grid h)))"
  by (simp add: getMetricGoalDistance_def getDistance_def)

section \<open>The claims\<close>

subsection \<open>Setting the goal\<close>

text \<open>
  C1, as the spec states it: for every goal cell that is out of grid bounds or is a wall
  cell, \<^verbatim>\<open>setGoal\<close> returns failure and leaves the distance field as it was. The code
  checks the bounds only. In the scene with a wall in cell \<open>(3, 0, 0)\<close>, that cell is in
  bounds and a wall, and \<^verbatim>\<open>setGoal(3, 0, 0)\<close> returns true.
\<close>

theorem setGoal_wall_goal_counterexample:
  "inBounds (m_bfs (example_heuristic 3 100)) 3 0 0
   \<and> isWall example_consts (m_bfs (example_heuristic 3 100)) 3 0 0
   \<and> fst (setGoal example_run (example_heuristic 3 100) 3 0 0) = True"
  by code_simp

text \<open>
  With the wavefront as the spec describes it, the call also overwrites the field: the
  wall the goal was in becomes the source, at distance 0.
\<close>

lemma setGoal_wall_goal_overwrites:
  "getDistance (m_bfs (snd (setGoal example_run (example_heuristic 3 100) 3 0 0))) 3 0 0 = Some 0"
  by code_simp

text \<open>
  C1, amended: for every goal cell that is out of grid bounds, \<^verbatim>\<open>setGoal\<close> returns
  failure and leaves the heuristic, its distance field included, exactly as it was; for
  every goal cell in bounds, wall or free, it runs the wavefront from that cell and
  returns success.
\<close>

theorem setGoal_checks_bounds_only:
  "(\<not> inBounds (m_bfs h) x y z \<longrightarrow> setGoal runf h x y z = (False, h))
   \<and> (inBounds (m_bfs h) x y z \<longrightarrow>
        setGoal runf h x y z = (True, h\<lparr>m_bfs := runf (m_bfs h) x y z\<rparr>))"
  by (simp add: setGoal_def)

theorem setGoal_checks_bounds_only_witness:
  "\<not> inBounds (m_bfs (example_heuristic 3 100)) 5 0 0
   \<and> setGoal example_run (example_heuristic 3 100) 5 0 0 = (False, example_heuristic 3 100)
   \<and> inBounds (m_bfs (example_heuristic 3 100)) 0 0 0
   \<and> setGoal example_run (example_heuristic 3 100) 0 0 0 =
       (True, (example_heuristic 3 100)
          \<lparr>m_bfs := example_run (m_bfs (example_heuristic 3 100)) 0 0 0\<rparr>)"
proof -
  have out: "\<not> inBounds (m_bfs (example_heuristic 3 100)) 5 0 0"
    by code_simp
  have inb: "inBounds (m_bfs (example_heuristic 3 100)) 0 0 0"
    by code_simp
  from out inb
    setGoal_checks_bounds_only [of "example_heuristic 3 100" 5 0 0 example_run]
    setGoal_checks_bounds_only [of "example_heuristic 3 100" 0 0 0 example_run]
  show ?thesis by simp
qed

subsection \<open>The cost of a cell\<close>

text \<open>
  C2, as the spec states it: \<^verbatim>\<open>getBfsCostToGoal\<close> returns \<open>INT_MAX\<close> if and only if the
  cell is out of bounds or holds \<open>WALL\<close>, otherwise exactly the cost per cell times the
  cell's distance, hence a value that never decreases as the distance grows. In the
  scene without a wall the cells \<open>(1, 0, 0)\<close> and \<open>(2, 0, 0)\<close> are at distances 1 and 2
  from the goal. With a cost per cell of \<open>INT_MAX\<close> the cost of the first, a free cell in
  bounds, is \<open>INT_MAX\<close>. With a cost per cell of \<open>2 ^ 30\<close> the product for the second
  does not fit in an int and the cost drops from \<open>2 ^ 30\<close> to \<open>- 2 ^ 31\<close>. With a cost per
  cell of \<open>-1\<close> the cost drops from \<open>-1\<close> to \<open>-2\<close>.
\<close>

theorem getBfsCostToGoal_counterexample:
  "getDistance (m_bfs (example_with_goal 9 0x7FFFFFFF)) 1 0 0 = Some 1
   \<and> 1 \<noteq> WALL example_consts
   \<and> getBfsCostToGoal example_consts (example_with_goal 9 0x7FFFFFFF)
        (m_bfs (example_with_goal 9 0x7FFFFFFF)) 1 0 0 = Some INT_MAX
   \<and> getDistance (m_bfs (example_with_goal 9 0x40000000)) 1 0 0 = Some 1
   \<and> getDistance (m_bfs (example_with_goal 9 0x40000000)) 2 0 0 = Some 2
   \<and> map_option sint (getBfsCostToGoal example_consts (example_with_goal 9 0x40000000)
        (m_bfs (example_with_goal 9 0x40000000)) 1 0 0) = Some 1073741824
   \<and> map_option sint (getBfsCostToGoal example_consts (example_with_goal 9 0x40000000)
        (m_bfs (example_with_goal 9 0x40000000)) 2 0 0) = Some (- 2147483648)
   \<and> getDistance (m_bfs (example_with_goal 9 (- 1))) 1 0 0 = Some 1
   \<and> getDistance (m_bfs (example_with_goal 9 (- 1))) 2 0 0 = Some 2
   \<and> map_option sint (getBfsCostToGoal example_consts (example_with_goal 9 (- 1))
        (m_bfs (example_with_goal 9 (- 1))) 1 0 0) = Some (- 1)
   \<and> map_option sint (getBfsCostToGoal example_consts (example_with_goal 9 (- 1))
        (m_bfs (example_with_goal 9 (- 1))) 2 0 0) = Some (- 2)"
  by code_simp

text \<open>
  C2, amended: for every cell, \<^verbatim>\<open>getBfsCostToGoal\<close> returns \<open>INT_MAX\<close> if the cell is out
  of grid bounds or its distance value is \<open>WALL\<close>. For every other cell whose value is a
  distance (not \<open>UNDISCOVERED\<close> either) it returns the cost per cell times that distance,
  as a 32-bit product; the product is \<open>INT_MAX\<close> for no even cost per cell. Where the
  product fits in an int it is the exact product, linear in the distance with the cost
  per cell as slope, and for a cost per cell that is not negative the cost of a cell at
  a smaller distance is at most the cost of a cell at a larger one.
\<close>

theorem getBfsCostToGoal_cost:
  "((\<not> inBounds bfs x y z \<or> getDistance bfs x y z = Some (WALL K)) \<longrightarrow>
      getBfsCostToGoal K h bfs x y z = Some INT_MAX)
   \<and> (\<forall>d. getDistance bfs x y z = Some d \<and> d \<noteq> WALL K \<and> d \<noteq> UNDISCOVERED K \<longrightarrow>
        getBfsCostToGoal K h bfs x y z = Some (cost_per_cell (m_params h) * d)
        \<and> (even (cost_per_cell (m_params h)) \<longrightarrow>
             getBfsCostToGoal K h bfs x y z \<noteq> Some INT_MAX)
        \<and> (fits_int32 (sint (cost_per_cell (m_params h)) * sint d) \<longrightarrow>
             map_option sint (getBfsCostToGoal K h bfs x y z) =
               Some (sint (cost_per_cell (m_params h)) * sint d))
        \<and> (\<forall>x' y' z' d'. getDistance bfs x' y' z' = Some d' \<and> d' \<noteq> WALL K
              \<and> d' \<noteq> UNDISCOVERED K \<and> sint d \<le> sint d'
              \<and> 0 \<le> sint (cost_per_cell (m_params h))
              \<and> fits_int32 (sint (cost_per_cell (m_params h)) * sint d)
              \<and> fits_int32 (sint (cost_per_cell (m_params h)) * sint d') \<longrightarrow>
              (\<exists>v v'. getBfsCostToGoal K h bfs x y z = Some v
                 \<and> getBfsCostToGoal K h bfs x' y' z' = Some v' \<and> sint v \<le> sint v')))"
proof (intro conjI allI impI)
  assume "\<not> inBounds bfs x y z \<or> getDistance bfs x y z = Some (WALL K)"
  then show "getBfsCostToGoal K h bfs x y z = Some INT_MAX"
    using getBfsCostToGoal_out getBfsCostToGoal_wall by blast
next
  fix d
  assume d: "getDistance bfs x y z = Some d \<and> d \<noteq> WALL K \<and> d \<noteq> UNDISCOVERED K"
  then show cost: "getBfsCostToGoal K h bfs x y z = Some (cost_per_cell (m_params h) * d)"
    by (simp add: getBfsCostToGoal_product)
  {
    assume "even (cost_per_cell (m_params h))"
    then show "getBfsCostToGoal K h bfs x y z \<noteq> Some INT_MAX"
      using cost by (simp add: even_product_not_INT_MAX)
  }
  {
    assume "fits_int32 (sint (cost_per_cell (m_params h)) * sint d)"
    then show "map_option sint (getBfsCostToGoal K h bfs x y z) =
        Some (sint (cost_per_cell (m_params h)) * sint d)"
      using cost by (simp add: sint_product)
  }
  {
    fix x' y' z' d'
    assume d': "getDistance bfs x' y' z' = Some d' \<and> d' \<noteq> WALL K
        \<and> d' \<noteq> UNDISCOVERED K \<and> sint d \<le> sint d'
        \<and> 0 \<le> sint (cost_per_cell (m_params h))
        \<and> fits_int32 (sint (cost_per_cell (m_params h)) * sint d)
        \<and> fits_int32 (sint (cost_per_cell (m_params h)) * sint d')"
    then have "getBfsCostToGoal K h bfs x' y' z' = Some (cost_per_cell (m_params h) * d')"
      by (simp add: getBfsCostToGoal_product)
    moreover have "sint (cost_per_cell (m_params h) * d) \<le> sint (cost_per_cell (m_params h) * d')"
      using d' by (simp add: product_mono)
    ultimately show "\<exists>v v'. getBfsCostToGoal K h bfs x y z = Some v
        \<and> getBfsCostToGoal K h bfs x' y' z' = Some v' \<and> sint v \<le> sint v'"
      using cost by simp
  }
qed

theorem getBfsCostToGoal_cost_witness:
  "getDistance (m_bfs (example_with_goal 3 100)) 3 0 0 = Some (WALL example_consts)
   \<and> getBfsCostToGoal example_consts (example_with_goal 3 100)
        (m_bfs (example_with_goal 3 100)) 3 0 0 = Some INT_MAX
   \<and> getDistance (m_bfs (example_with_goal 3 100)) 1 0 0 = Some 1
   \<and> getDistance (m_bfs (example_with_goal 3 100)) 2 0 0 = Some 2
   \<and> getBfsCostToGoal example_consts (example_with_goal 3 100)
        (m_bfs (example_with_goal 3 100)) 1 0 0 = Some 100
   \<and> getBfsCostToGoal example_consts (example_with_goal 3 100)
        (m_bfs (example_with_goal 3 100)) 1 0 0 \<noteq> Some INT_MAX
   \<and> map_option sint (getBfsCostToGoal example_consts (example_with_goal 3 100)
        (m_bfs (example_with_goal 3 100)) 1 0 0) = Some 100
   \<and> (\<exists>v v'. getBfsCostToGoal example_consts (example_with_goal 3 100)
                (m_bfs (example_with_goal 3 100)) 1 0 0 = Some v
        \<and> getBfsCostToGoal example_consts (example_with_goal 3 100)
                (m_bfs (example_with_goal 3 100)) 2 0 0 = Some v'
        \<and> sint v \<le> sint v')"
proof -
  let ?h = "example_with_goal 3 100"
  let ?b = "m_bfs ?h"
  have c: "cost_per_cell (m_params ?h) = 100"
    by code_simp
  have wall: "getDistance ?b 3 0 0 = Some (WALL example_consts)"
    by code_simp
  have d1: "getDistance ?b 1 0 0 = Some 1 \<and> 1 \<noteq> WALL example_consts
      \<and> 1 \<noteq> UNDISCOVERED example_consts"
    by code_simp
  have d2: "getDistance ?b 2 0 0 = Some 2 \<and> 2 \<noteq> WALL example_consts
      \<and> 2 \<noteq> UNDISCOVERED example_consts"
    by code_simp
  have ev: "even (cost_per_cell (m_params ?h))"
    by (simp add: c)
  have fits: "fits_int32 (sint (cost_per_cell (m_params ?h)) * sint (1 :: int32))
      \<and> fits_int32 (sint (cost_per_cell (m_params ?h)) * sint (2 :: int32))
      \<and> 0 \<le> sint (cost_per_cell (m_params ?h)) \<and> sint (1 :: int32) \<le> sint (2 :: int32)"
    by (simp add: c fits_int32_def)
  note at_wall = getBfsCostToGoal_cost [of ?b 3 0 0 example_consts ?h]
  note at_one = getBfsCostToGoal_cost [of ?b 1 0 0 example_consts ?h]
  from at_wall wall
  have r0: "getBfsCostToGoal example_consts ?h ?b 3 0 0 = Some INT_MAX"
    by blast
  from at_one d1
  have r1: "getBfsCostToGoal example_consts ?h ?b 1 0 0 = Some (cost_per_cell (m_params ?h) * 1)"
    by blast
  from at_one d1 ev
  have r2: "getBfsCostToGoal example_consts ?h ?b 1 0 0 \<noteq> Some INT_MAX"
    by blast
  from at_one d1 fits
  have r3: "map_option sint (getBfsCostToGoal example_consts ?h ?b 1 0 0) =
      Some (sint (cost_per_cell (m_params ?h)) * sint (1 :: int32))"
    by blast
  from at_one d1 d2 fits
  have r4: "\<exists>v v'. getBfsCostToGoal example_consts ?h ?b 1 0 0 = Some v
      \<and> getBfsCostToGoal example_consts ?h ?b 2 0 0 = Some v' \<and> sint v \<le> sint v'"
    by blast
  from wall d1 d2 r0 r1 r2 r3 r4 show ?thesis
    by (simp add: c)
qed

text \<open>
  C3: a free cell that the wavefront never reaches holds \<open>UNDISCOVERED\<close>, and the spec
  has a cost query on it return the infinite sentinel, as it does out of bounds. The
  code compares the distance with \<open>WALL\<close> only and multiplies every other value,
  \<open>UNDISCOVERED\<close> included, by the cost per cell.
\<close>

lemma getBfsCostToGoal_undiscovered:
  "isUndiscovered K bfs x y z \<Longrightarrow> UNDISCOVERED K \<noteq> WALL K \<Longrightarrow>
   getBfsCostToGoal K h bfs x y z = Some (cost_per_cell (m_params h) * UNDISCOVERED K)"
  by (simp add: isUndiscovered_def getBfsCostToGoal_product)

text \<open>Whatever the two sentinels are, an even cost per cell never gives \<open>INT_MAX\<close> there.\<close>

lemma getBfsCostToGoal_undiscovered_even:
  "isUndiscovered K bfs x y z \<Longrightarrow> UNDISCOVERED K \<noteq> WALL K \<Longrightarrow>
   even (cost_per_cell (m_params h)) \<Longrightarrow> getBfsCostToGoal K h bfs x y z \<noteq> Some INT_MAX"
  by (simp add: getBfsCostToGoal_undiscovered even_product_not_INT_MAX)

text \<open>
  C3 at a concrete input: in the scene with a wall in cell \<open>(3, 0, 0)\<close> and the goal in
  \<open>(0, 0, 0)\<close>, the cell \<open>(4, 0, 0)\<close> is free and cut off from the goal. It is
  undiscovered and not a wall, and its cost, asked by cell or by the identifier of the
  state in it, is \<open>-100\<close>; out of bounds the cost is \<open>INT_MAX\<close>.
\<close>

theorem getBfsCostToGoal_undiscovered_cell:
  "isUndiscovered example_consts (m_bfs (example_with_goal 3 100)) 4 0 0
   \<and> \<not> isWall example_consts (m_bfs (example_with_goal 3 100)) 4 0 0
   \<and> map_option sint (getBfsCostToGoal example_consts (example_with_goal 3 100)
        (m_bfs (example_with_goal 3 100)) 4 0 0) = Some (- 100)
   \<and> map_option sint (GetGoalHeuristic example_consts (example_with_goal 3 100) 4) =
        Some (- 100)
   \<and> getBfsCostToGoal example_consts (example_with_goal 3 100)
        (m_bfs (example_with_goal 3 100)) 5 0 0 = Some INT_MAX"
  by code_simp

subsection \<open>Building the walls\<close>

text \<open>
  C4: for every cell of the clearance grid, \<^verbatim>\<open>syncGridAndBfs\<close> makes the cell a wall if
  and only if the grid's clearance there is at most the sphere radius, and it classifies
  every cell: the engine it builds has the grid's dimensions and each of its cells is a
  wall or undiscovered. The two sentinels are taken to differ.
\<close>

theorem syncGridAndBfs_walls:
  assumes "WALL K \<noteq> UNDISCOVERED K" and "getGridSize g = (xc, yc, zc)"
  shows "dim_x (syncGridAndBfs K g p) = xc \<and> dim_y (syncGridAndBfs K g p) = yc
    \<and> dim_z (syncGridAndBfs K g p) = zc
    \<and> (\<forall>x y z. 0 \<le> x \<and> x < xc \<and> 0 \<le> y \<and> y < yc \<and> 0 \<le> z \<and> z < zc \<longrightarrow>
         (isWall K (syncGridAndBfs K g p) x y z =
            double_le (grid_getDistance g x y z) (planning_link_sphere_radius p))
         \<and> (isWall K (syncGridAndBfs K g p) x y z
              \<or> isUndiscovered K (syncGridAndBfs K g p) x y z))"
  using assms
  by (auto simp: syncGridAndBfs_dims isWall_iff isUndiscovered_iff syncGridAndBfs_inBounds
      syncGridAndBfs_grid)

theorem syncGridAndBfs_walls_witness:
  "WALL example_consts \<noteq> UNDISCOVERED example_consts
   \<and> getGridSize (example_grid 3) = (5, 1, 1)
   \<and> dim_x (syncGridAndBfs example_consts (example_grid 3) (example_params 100)) = 5
   \<and> isWall example_consts
        (syncGridAndBfs example_consts (example_grid 3) (example_params 100)) 3 0 0
   \<and> \<not> isWall example_consts
        (syncGridAndBfs example_consts (example_grid 3) (example_params 100)) 0 0 0
   \<and> isUndiscovered example_consts
        (syncGridAndBfs example_consts (example_grid 3) (example_params 100)) 0 0 0"
proof -
  have K: "WALL example_consts \<noteq> UNDISCOVERED example_consts"
    by (simp add: example_consts_def)
  have g: "getGridSize (example_grid 3) = (5, 1, 1)"
    by (simp add: example_grid_def)
  have clear: "double_le (grid_getDistance (example_grid 3) 3 0 0)
        (planning_link_sphere_radius (example_params 100))
      \<and> \<not> double_le (grid_getDistance (example_grid 3) 0 0 0)
        (planning_link_sphere_radius (example_params 100))"
    by (simp add: example_grid_def example_params_def)
  from syncGridAndBfs_walls [OF K g, of "example_params 100"] clear
  have "dim_x (syncGridAndBfs example_consts (example_grid 3) (example_params 100)) = 5
    \<and> isWall example_consts
        (syncGridAndBfs example_consts (example_grid 3) (example_params 100)) 3 0 0
    \<and> \<not> isWall example_consts
        (syncGridAndBfs example_consts (example_grid 3) (example_params 100)) 0 0 0
    \<and> isUndiscovered example_consts
        (syncGridAndBfs example_consts (example_grid 3) (example_params 100)) 0 0 0"
    by force
  with K g show ?thesis by blast
qed

text \<open>
  C9: for a fixed clearance grid and two sphere radii of which the second is strictly
  larger, every wall of the engine built with the first radius is a wall of the engine
  built with the second.
\<close>

theorem syncGridAndBfs_radius_mono:
  assumes "double_less (planning_link_sphere_radius p1) (planning_link_sphere_radius p2)"
  shows "{(x, y, z). isWall K (syncGridAndBfs K g p1) x y z}
    \<subseteq> {(x, y, z). isWall K (syncGridAndBfs K g p2) x y z}"
proof -
  obtain xc yc zc where g: "getGridSize g = (xc, yc, zc)"
    by (cases "getGridSize g") auto
  have "isWall K (syncGridAndBfs K g p2) x y z"
    if w: "isWall K (syncGridAndBfs K g p1) x y z" for x y z
  proof -
    from w g have inb: "0 \<le> x \<and> x < xc \<and> 0 \<le> y \<and> y < yc \<and> 0 \<le> z \<and> z < zc"
      by (simp add: isWall_iff syncGridAndBfs_inBounds)
    from w g inb
    have "double_le (grid_getDistance g x y z) (planning_link_sphere_radius p1)
        \<or> UNDISCOVERED K = WALL K"
      by (simp add: isWall_iff syncGridAndBfs_grid split: if_splits)
    then have "double_le (grid_getDistance g x y z) (planning_link_sphere_radius p2)
        \<or> UNDISCOVERED K = WALL K"
      using assms double_le_less_trans by blast
    with g inb show ?thesis
      by (auto simp: isWall_iff syncGridAndBfs_inBounds syncGridAndBfs_grid)
  qed
  then show ?thesis by auto
qed

theorem syncGridAndBfs_radius_mono_witness:
  "double_less (planning_link_sphere_radius (example_params 100)) (Fin 2)
   \<and> isWall example_consts
        (syncGridAndBfs example_consts (example_grid 3) (example_params 100)) 3 0 0
   \<and> isWall example_consts
        (syncGridAndBfs example_consts (example_grid 3)
           ((example_params 100)\<lparr>planning_link_sphere_radius := Fin 2\<rparr>)) 3 0 0
   \<and> \<not> isWall example_consts
        (syncGridAndBfs example_consts (example_grid 3) (example_params 100)) 0 0 0
   \<and> isWall example_consts
        (syncGridAndBfs example_consts (example_grid 3)
           ((example_params 100)\<lparr>planning_link_sphere_radius := Fin 2\<rparr>)) 0 0 0"
proof -
  let ?p2 = "(example_params 100)\<lparr>planning_link_sphere_radius := Fin 2\<rparr>"
  have less: "double_less (planning_link_sphere_radius (example_params 100))
      (planning_link_sphere_radius ?p2)"
    by (simp add: example_params_def)
  have w1: "isWall example_consts
      (syncGridAndBfs example_consts (example_grid 3) (example_params 100)) 3 0 0"
    by code_simp
  from syncGridAndBfs_radius_mono [OF less, of example_consts "example_grid 3"] w1
  have w2: "isWall example_consts (syncGridAndBfs example_consts (example_grid 3) ?p2) 3 0 0"
    by auto
  have rest: "\<not> isWall example_consts
        (syncGridAndBfs example_consts (example_grid 3) (example_params 100)) 0 0 0
      \<and> isWall example_consts (syncGridAndBfs example_consts (example_grid 3) ?p2) 0 0 0"
    by code_simp
  from less w1 w2 rest show ?thesis by simp
qed

subsection \<open>The metric distance\<close>

text \<open>The signed value of a 32-bit int is at most \<open>2 ^ 31\<close> in magnitude.\<close>

lemma abs_sint_int32: "\<bar>sint (w :: int32)\<bar> \<le> 2 ^ 31"
proof -
  have "- (2 ^ 31) \<le> sint w" and "sint w < 2 ^ 31"
    using sint_ge [of w] sint_lt [of w] by simp_all
  then show ?thesis by simp
qed

text \<open>
  So an int times a finite double of magnitude at most \<open>DBL_MAX / 2 ^ 31\<close> is within
  the range of a double.
\<close>

lemma int32_product_in_range:
  assumes "\<bar>r\<bar> * 2 ^ 31 \<le> DBL_MAX"
  shows "\<bar>real_of_int (sint (w :: int32)) * r\<bar> \<le> DBL_MAX"
proof -
  have "\<bar>real_of_int (sint w)\<bar> \<le> 2 ^ 31"
    using abs_sint_int32 [of w] by (metis of_int_abs of_int_le_iff of_int_numeral of_int_power)
  then have "\<bar>real_of_int (sint w)\<bar> * \<bar>r\<bar> \<le> 2 ^ 31 * \<bar>r\<bar>"
    by (rule mult_right_mono) simp
  with assms show ?thesis
    by (simp add: abs_mult mult.commute)
qed

text \<open>The multiplication of the scene is finite on finite operands within range.\<close>

lemma double_mul_example_round_finite:
  "\<bar>a * b\<bar> \<le> DBL_MAX \<Longrightarrow> is_finite (double_mul example_round (Fin a) (Fin b))"
  by (simp add: example_round_def)

text \<open>
  C5, as the spec states it: \<^verbatim>\<open>getMetricGoalDistance\<close> converts the point to grid
  coordinates and returns, out of grid bounds, the \<open>WALL\<close> constant times the grid
  resolution, a fixed finite penalty and not an unbounded value, and in bounds the
  cell's distance times the resolution. The penalty is a product with the resolution
  and is only as finite as that product. In the scene the point \<open>(7, 0, 0)\<close> is out of
  bounds; with an infinite resolution the penalty is infinite, and so it is with the
  finite resolution \<open>2 ^ 1000\<close>, for which the product is beyond the range of a double.
\<close>

theorem getMetricGoalDistance_counterexample:
  "worldToGrid (m_grid (example_with_resolution PosInf)) (Fin 7) (Fin 0) (Fin 0) = (7, 0, 0)
   \<and> \<not> inBounds (m_bfs (example_with_resolution PosInf)) 7 0 0
   \<and> getMetricGoalDistance example_consts (double_mul example_round)
        (example_with_resolution PosInf) (Fin 7) (Fin 0) (Fin 0) = Some PosInf
   \<and> worldToGrid (m_grid (example_with_resolution (Fin (2 ^ 1000)))) (Fin 7) (Fin 0) (Fin 0)
        = (7, 0, 0)
   \<and> \<not> inBounds (m_bfs (example_with_resolution (Fin (2 ^ 1000)))) 7 0 0
   \<and> getMetricGoalDistance example_consts (double_mul example_round)
        (example_with_resolution (Fin (2 ^ 1000))) (Fin 7) (Fin 0) (Fin 0) = Some PosInf"
proof -
  have res: "getResolution (m_grid (example_with_resolution r)) = r" for r
    by (simp add: example_with_resolution_def setGoal_def BfsHeuristic_new_def)
  have grid: "worldToGrid (m_grid (example_with_resolution r)) (Fin 7) (Fin 0) (Fin 0)
      = (7, 0, 0)" for r
    by (simp add: example_with_resolution_def setGoal_def BfsHeuristic_new_def
        example_grid_def)
  have out1: "\<not> inBounds (m_bfs (example_with_resolution PosInf)) 7 0 0"
    by code_simp
  have out2: "\<not> inBounds (m_bfs (example_with_resolution (Fin (2 ^ 1000)))) 7 0 0"
    by code_simp
  have wall: "int_to_double (WALL example_consts) = Fin 2147483647"
    by (simp add: int_to_double_def example_consts_def)
  have big: "\<not> \<bar>2147483647 * (2 :: real) ^ 1000\<bar> \<le> DBL_MAX"
    by (simp add: DBL_MAX_def)
  from grid [of PosInf] out1
  have r1: "getMetricGoalDistance example_consts (double_mul example_round)
      (example_with_resolution PosInf) (Fin 7) (Fin 0) (Fin 0) = Some PosInf"
    by (simp add: getMetricGoalDistance_out res wall inf_of_sign_def)
  from grid [of "Fin (2 ^ 1000)"] out2 big
  have r2: "getMetricGoalDistance example_consts (double_mul example_round)
      (example_with_resolution (Fin (2 ^ 1000))) (Fin 7) (Fin 0) (Fin 0) = Some PosInf"
    by (simp add: getMetricGoalDistance_out res wall example_round_def)
  from grid [of PosInf] grid [of "Fin (2 ^ 1000)"] out1 out2 r1 r2 show ?thesis
    by blast
qed

text \<open>
  C5, amended: for every query point, \<^verbatim>\<open>getMetricGoalDistance\<close> converts the point to
  grid coordinates; if the cell is out of grid bounds it returns exactly the \<open>WALL\<close>
  constant times the grid resolution, a value and not an undefined read, and otherwise
  exactly the cell's distance times the grid resolution. The penalty out of bounds is
  finite whenever the grid resolution is finite and of magnitude at most
  \<open>DBL_MAX / 2 ^ 31\<close>, the multiplication being finite on finite operands whose product
  is within the range of a double, as IEEE's is.
\<close>

theorem getMetricGoalDistance_value:
  assumes "worldToGrid (m_grid h) x y z = (gx, gy, gz)"
  shows "(\<not> inBounds (m_bfs h) gx gy gz \<longrightarrow>
            getMetricGoalDistance K mul h x y z =
              Some (mul (int_to_double (WALL K)) (getResolution (m_grid h)))
            \<and> ((\<forall>a b. \<bar>a * b\<bar> \<le> DBL_MAX \<longrightarrow> is_finite (mul (Fin a) (Fin b)))
                 \<and> (\<exists>r. getResolution (m_grid h) = Fin r \<and> \<bar>r\<bar> * 2 ^ 31 \<le> DBL_MAX) \<longrightarrow>
               (\<exists>v. getMetricGoalDistance K mul h x y z = Some (Fin v))))
    \<and> (inBounds (m_bfs h) gx gy gz \<longrightarrow>
            getDistance (m_bfs h) gx gy gz = Some (distance_grid (m_bfs h) (gx, gy, gz))
            \<and> getMetricGoalDistance K mul h x y z =
                Some (mul (int_to_double (distance_grid (m_bfs h) (gx, gy, gz)))
                       (getResolution (m_grid h))))"
proof (intro conjI impI)
  assume out: "\<not> inBounds (m_bfs h) gx gy gz"
  with assms
  show penalty: "getMetricGoalDistance K mul h x y z =
      Some (mul (int_to_double (WALL K)) (getResolution (m_grid h)))"
    by (rule getMetricGoalDistance_out)
  assume fin: "(\<forall>a b. \<bar>a * b\<bar> \<le> DBL_MAX \<longrightarrow> is_finite (mul (Fin a) (Fin b)))
      \<and> (\<exists>r. getResolution (m_grid h) = Fin r \<and> \<bar>r\<bar> * 2 ^ 31 \<le> DBL_MAX)"
  then obtain r where r: "getResolution (m_grid h) = Fin r" "\<bar>r\<bar> * 2 ^ 31 \<le> DBL_MAX"
    by blast
  from r(2) have "\<bar>real_of_int (sint (WALL K)) * r\<bar> \<le> DBL_MAX"
    by (rule int32_product_in_range)
  with fin have "is_finite (mul (Fin (real_of_int (sint (WALL K)))) (Fin r))"
    by blast
  then obtain v where "mul (Fin (real_of_int (sint (WALL K)))) (Fin r) = Fin v"
    by (cases "mul (Fin (real_of_int (sint (WALL K)))) (Fin r)") simp_all
  with penalty r(1) show "\<exists>v. getMetricGoalDistance K mul h x y z = Some (Fin v)"
    by (simp add: int_to_double_def)
next
  assume inb: "inBounds (m_bfs h) gx gy gz"
  then show "getDistance (m_bfs h) gx gy gz = Some (distance_grid (m_bfs h) (gx, gy, gz))"
    by (rule getDistance_Some)
  from assms inb
  show "getMetricGoalDistance K mul h x y z =
      Some (mul (int_to_double (distance_grid (m_bfs h) (gx, gy, gz)))
             (getResolution (m_grid h)))"
    by (rule getMetricGoalDistance_in)
qed

theorem getMetricGoalDistance_value_witness:
  "worldToGrid (m_grid (example_with_goal 3 100)) (Fin 7) (Fin 0) (Fin 0) = (7, 0, 0)
   \<and> \<not> inBounds (m_bfs (example_with_goal 3 100)) 7 0 0
   \<and> getResolution (m_grid (example_with_goal 3 100)) = Fin 1
   \<and> \<bar>1 :: real\<bar> * 2 ^ 31 \<le> DBL_MAX
   \<and> getMetricGoalDistance example_consts (double_mul example_round)
        (example_with_goal 3 100) (Fin 7) (Fin 0) (Fin 0) = Some (Fin 2147483647)
   \<and> (\<exists>v. getMetricGoalDistance example_consts (double_mul example_round)
        (example_with_goal 3 100) (Fin 7) (Fin 0) (Fin 0) = Some (Fin v))
   \<and> worldToGrid (m_grid (example_with_goal 3 100)) (Fin 2) (Fin 0) (Fin 0) = (2, 0, 0)
   \<and> inBounds (m_bfs (example_with_goal 3 100)) 2 0 0
   \<and> getMetricGoalDistance example_consts (double_mul example_round)
        (example_with_goal 3 100) (Fin 2) (Fin 0) (Fin 0) = Some (Fin 2)"
proof -
  let ?h = "example_with_goal 3 100"
  let ?mul = "double_mul example_round"
  have far: "worldToGrid (m_grid ?h) (Fin 7) (Fin 0) (Fin 0) = (7, 0, 0)"
    by code_simp
  have near: "worldToGrid (m_grid ?h) (Fin 2) (Fin 0) (Fin 0) = (2, 0, 0)"
    by code_simp
  have out: "\<not> inBounds (m_bfs ?h) 7 0 0"
    by code_simp
  have inb: "inBounds (m_bfs ?h) 2 0 0"
    by code_simp
  have res: "getResolution (m_grid ?h) = Fin 1"
    by (simp add: example_with_goal_def setGoal_def example_heuristic_def
        BfsHeuristic_new_def example_grid_def)
  have small: "\<bar>1 :: real\<bar> * 2 ^ 31 \<le> DBL_MAX"
    by (simp add: DBL_MAX_def)
  have mul: "\<forall>a b. \<bar>a * b\<bar> \<le> DBL_MAX \<longrightarrow> is_finite (?mul (Fin a) (Fin b))"
    using double_mul_example_round_finite by blast
  have wall: "int_to_double (WALL example_consts) = Fin 2147483647"
    by (simp add: int_to_double_def example_consts_def)
  have two: "distance_grid (m_bfs ?h) (2, 0, 0) = 2"
    by code_simp
  have wall_range: "\<bar>2147483647 :: real\<bar> \<le> DBL_MAX" and two_range: "\<bar>2 :: real\<bar> \<le> DBL_MAX"
    by (simp_all add: DBL_MAX_def)
  have penalty: "?mul (int_to_double (WALL example_consts)) (getResolution (m_grid ?h))
      = Fin 2147483647"
    using wall_range by (simp add: wall res example_round_def)
  have metres: "?mul (int_to_double (distance_grid (m_bfs ?h) (2, 0, 0)))
      (getResolution (m_grid ?h)) = Fin 2"
    using two_range by (simp add: two res int_to_double_def example_round_def)
  note at_far = getMetricGoalDistance_value [OF far, of example_consts ?mul]
  note at_near = getMetricGoalDistance_value [OF near, of example_consts ?mul]
  from at_far out penalty
  have r1: "getMetricGoalDistance example_consts ?mul ?h (Fin 7) (Fin 0) (Fin 0)
      = Some (Fin 2147483647)"
    by simp
  from at_far out mul res small
  have r2: "\<exists>v. getMetricGoalDistance example_consts ?mul ?h (Fin 7) (Fin 0) (Fin 0)
      = Some (Fin v)"
    by blast
  from at_near inb metres
  have r3: "getMetricGoalDistance example_consts ?mul ?h (Fin 2) (Fin 0) (Fin 0)
      = Some (Fin 2)"
    by simp
  from far near out inb res small r1 r2 r3 show ?thesis
    by blast
qed

text \<open>
  C10: for a point in an in-bounds wall cell, \<^verbatim>\<open>getMetricGoalDistance\<close> returns the
  \<open>WALL\<close> constant times the grid resolution, since \<open>WALL\<close> is the distance the cell
  holds; that is the value it returns for any point out of bounds, so the two cannot be
  told apart by it.
\<close>

theorem getMetricGoalDistance_wall_cell:
  assumes "worldToGrid (m_grid h) x y z = (gx, gy, gz)"
    and "inBounds (m_bfs h) gx gy gz"
    and "isWall K (m_bfs h) gx gy gz"
    and "worldToGrid (m_grid h) x' y' z' = (gx', gy', gz')"
    and "\<not> inBounds (m_bfs h) gx' gy' gz'"
  shows "getMetricGoalDistance K mul h x y z =
      Some (mul (int_to_double (WALL K)) (getResolution (m_grid h)))
    \<and> getMetricGoalDistance K mul h x y z = getMetricGoalDistance K mul h x' y' z'"
proof -
  from assms(3) have "distance_grid (m_bfs h) (gx, gy, gz) = WALL K"
    by (simp add: isWall_iff)
  with assms(1,2)
  have "getMetricGoalDistance K mul h x y z =
      Some (mul (int_to_double (WALL K)) (getResolution (m_grid h)))"
    by (simp add: getMetricGoalDistance_in)
  moreover from assms(4,5)
  have "getMetricGoalDistance K mul h x' y' z' =
      Some (mul (int_to_double (WALL K)) (getResolution (m_grid h)))"
    by (rule getMetricGoalDistance_out)
  ultimately show ?thesis by simp
qed

theorem getMetricGoalDistance_wall_cell_witness:
  "worldToGrid (m_grid (example_with_goal 3 100)) (Fin 3) (Fin 0) (Fin 0) = (3, 0, 0)
   \<and> inBounds (m_bfs (example_with_goal 3 100)) 3 0 0
   \<and> isWall example_consts (m_bfs (example_with_goal 3 100)) 3 0 0
   \<and> worldToGrid (m_grid (example_with_goal 3 100)) (Fin 7) (Fin 0) (Fin 0) = (7, 0, 0)
   \<and> \<not> inBounds (m_bfs (example_with_goal 3 100)) 7 0 0
   \<and> getMetricGoalDistance example_consts example_mul (example_with_goal 3 100)
        (Fin 3) (Fin 0) (Fin 0) =
      getMetricGoalDistance example_consts example_mul (example_with_goal 3 100)
        (Fin 7) (Fin 0) (Fin 0)"
proof -
  let ?h = "example_with_goal 3 100"
  have a: "worldToGrid (m_grid ?h) (Fin 3) (Fin 0) (Fin 0) = (3, 0, 0)"
    by code_simp
  have b: "inBounds (m_bfs ?h) 3 0 0"
    by code_simp
  have c: "isWall example_consts (m_bfs ?h) 3 0 0"
    by code_simp
  have d: "worldToGrid (m_grid ?h) (Fin 7) (Fin 0) (Fin 0) = (7, 0, 0)"
    by code_simp
  have e: "\<not> inBounds (m_bfs ?h) 7 0 0"
    by code_simp
  from getMetricGoalDistance_wall_cell [OF a b c d e, of example_mul] a b c d e
  show ?thesis by blast
qed

subsection \<open>Queries by state identifier\<close>

text \<open>
  C7: for every state identifier the environment cannot resolve, \<^verbatim>\<open>GetGoalHeuristic\<close>
  returns 0; for every identifier it resolves to a state, it returns
  \<^verbatim>\<open>getBfsCostToGoal\<close> of that state's cell. Either way it has a value.
\<close>

theorem GetGoalHeuristic_value:
  "(getHashEntry (m_manip_env h) state_id = None \<longrightarrow> GetGoalHeuristic K h state_id = Some 0)
   \<and> (\<forall>state x y z. getHashEntry (m_manip_env h) state_id = Some state
          \<and> xyz state = (x, y, z) \<longrightarrow>
        GetGoalHeuristic K h state_id = getBfsCostToGoal K h (m_bfs h) x y z)
   \<and> (\<exists>v. GetGoalHeuristic K h state_id = Some v)"
proof (intro conjI allI impI)
  assume "getHashEntry (m_manip_env h) state_id = None"
  then show "GetGoalHeuristic K h state_id = Some 0"
    by (simp add: GetGoalHeuristic_def)
next
  fix state x y z
  assume "getHashEntry (m_manip_env h) state_id = Some state \<and> xyz state = (x, y, z)"
  then show "GetGoalHeuristic K h state_id = getBfsCostToGoal K h (m_bfs h) x y z"
    by (simp add: GetGoalHeuristic_def)
next
  show "\<exists>v. GetGoalHeuristic K h state_id = Some v"
    using getBfsCostToGoal_defined
    by (cases "getHashEntry (m_manip_env h) state_id") (simp_all add: GetGoalHeuristic_def)
qed

theorem GetGoalHeuristic_value_witness:
  "getHashEntry (m_manip_env (example_with_goal 3 100)) 9 = None
   \<and> GetGoalHeuristic example_consts (example_with_goal 3 100) 9 = Some 0
   \<and> getHashEntry (m_manip_env (example_with_goal 3 100)) 2 = Some \<lparr>xyz = (2, 0, 0)\<rparr>
   \<and> GetGoalHeuristic example_consts (example_with_goal 3 100) 2 =
       getBfsCostToGoal example_consts (example_with_goal 3 100)
         (m_bfs (example_with_goal 3 100)) 2 0 0"
proof -
  let ?h = "example_with_goal 3 100"
  have unknown: "getHashEntry (m_manip_env ?h) 9 = None"
    by code_simp
  have known: "getHashEntry (m_manip_env ?h) 2 = Some \<lparr>xyz = (2, 0, 0)\<rparr>"
    by code_simp
  have cell: "xyz \<lparr>xyz = (2, 0, 0)\<rparr> = (2, 0, 0)"
    by simp
  from GetGoalHeuristic_value [of ?h 9 example_consts] unknown
  have r1: "GetGoalHeuristic example_consts ?h 9 = Some 0"
    by blast
  from GetGoalHeuristic_value [of ?h 2 example_consts] known cell
  have r2: "GetGoalHeuristic example_consts ?h 2 =
      getBfsCostToGoal example_consts ?h (m_bfs ?h) 2 0 0"
    by blast
  from unknown known r1 r2 show ?thesis by simp
qed

text \<open>
  C6: for every pair of state identifiers, if the environment recognises the second as
  the goal, \<^verbatim>\<open>GetFromToHeuristic\<close> returns what \<^verbatim>\<open>GetGoalHeuristic\<close> returns for the first;
  if not, it returns 0.
\<close>

theorem GetFromToHeuristic_value:
  "(isGoal (m_manip_env h) to_id \<longrightarrow>
      GetFromToHeuristic K h from_id to_id = GetGoalHeuristic K h from_id)
   \<and> (\<not> isGoal (m_manip_env h) to_id \<longrightarrow> GetFromToHeuristic K h from_id to_id = Some 0)"
  by (simp add: GetFromToHeuristic_def)

theorem GetFromToHeuristic_value_witness:
  "isGoal (m_manip_env (example_with_goal 3 100)) 0
   \<and> GetFromToHeuristic example_consts (example_with_goal 3 100) 2 0 =
       GetGoalHeuristic example_consts (example_with_goal 3 100) 2
   \<and> \<not> isGoal (m_manip_env (example_with_goal 3 100)) 1
   \<and> GetFromToHeuristic example_consts (example_with_goal 3 100) 2 1 = Some 0"
proof -
  let ?h = "example_with_goal 3 100"
  have goal: "isGoal (m_manip_env ?h) 0"
    by code_simp
  have other: "\<not> isGoal (m_manip_env ?h) 1"
    by code_simp
  from GetFromToHeuristic_value [of ?h 0 example_consts 2]
    GetFromToHeuristic_value [of ?h 1 example_consts 2] goal other
  show ?thesis by simp
qed

text \<open>
  C8: for every state identifier, \<^verbatim>\<open>GetStartHeuristic\<close> returns 0 and leaves the
  heuristic, its walls and distances included, as it was.
\<close>

theorem GetStartHeuristic_value: "GetStartHeuristic h state_id = (0, h)"
  by (simp add: GetStartHeuristic_def)

end
